theory Spec2Isabelle
  imports Main "HOL-Library.Word" "HOL-Library.Sublist"
begin

section \<open>The sdapi/v1 client of go-sd-webui-cli (package sdcli, client.go)\<close>

text \<open>
  The client is a thin binding over three Go libraries: \<^verbatim>\<open>net/http\<close>,
  \<^verbatim>\<open>encoding/json\<close> and \<^verbatim>\<open>encoding/base64\<close> with \<^verbatim>\<open>image/png\<close>.
  The embedding keeps the control flow of \<^verbatim>\<open>client.go\<close> and takes what the
  libraries and the remote server compute as parameters: a record \<open>lib\<close> of library
  functions, a \<open>transport\<close> for the HTTP round trip, and the JSON decoder of each
  response type. The \<^verbatim>\<open>context.Context\<close> argument of every method only travels
  to the HTTP library; it is part of what \<open>request_error\<close> and the transport
  stand for. The deferred \<^verbatim>\<open>resp.Body.Close()\<close> has no effect on any result and is
  left out.

  Go strings and byte slices are both sequences of bytes, so both are \<open>string\<close>
  here (a HOL \<open>char\<close> is one byte). A library error is represented by its message.
\<close>

subsection \<open>Values of the Go runtime\<close>

type_synonym bytes = string

type_synonym go_error = string

text \<open>
  A Go call either returns or panics (nil dereference, index out of range). The
  functions of \<^verbatim>\<open>client.go\<close> never recover, so a panic ends the call.
\<close>

datatype 'a exec = Panic | Done 'a

text \<open>\<^verbatim>\<open>xs[0]\<close> on a slice: index out of range panics.\<close>

definition index0 :: "'a list \<Rightarrow> 'a exec" where
  "index0 xs = (case xs of [] \<Rightarrow> Panic | x # _ \<Rightarrow> Done x)"

text \<open>
  The verb \<^verbatim>\<open>%d\<close> of \<^verbatim>\<open>fmt.Sprintf\<close> on an \<^verbatim>\<open>int\<close>: decimal digits, with a
  leading minus sign for a negative number.
\<close>

definition digit_char :: "nat \<Rightarrow> char" where
  "digit_char d = char_of (48 + d)"

function show_nat :: "nat \<Rightarrow> string" where
  "show_nat n = (if n < 10 then [digit_char n] else show_nat (n div 10) @ [digit_char (n mod 10)])"
  by pat_completeness auto
termination
  by (relation "measure id") auto

declare show_nat.simps [simp del]

definition show_int :: "int \<Rightarrow> string" where
  "show_int i = (if i < 0 then CHR ''-'' # show_nat (nat (- i)) else show_nat (nat i))"

text \<open>The verb \<^verbatim>\<open>%v\<close> on a \<^verbatim>\<open>bool\<close>.\<close>

definition show_bool :: "bool \<Rightarrow> string" where
  "show_bool b = (if b then ''true'' else ''false'')"

subsection \<open>Struct values and their JSON encoding\<close>

text \<open>
  \<^verbatim>\<open>encoding/json\<close> encodes a struct by reflection over its field declarations.
  The embedding does the same: a struct type is the list of its field declarations
  (Go name, kind, JSON key, whether the tag says \<^verbatim>\<open>omitempty\<close>), in the order of
  the source, and a struct value is the list of its field values in that order.

  \<open>GFloat32\<close> holds the IEEE 754 bits of a \<^verbatim>\<open>float32\<close>. A slice is its list of
  elements (the nil slice and the empty slice both have length 0, which is all the
  encoder's emptiness test looks at); the elements of a \<^verbatim>\<open>[]interface{}\<close> are the
  values the interfaces hold. \<open>GPtr\<close> is a pointer, \<open>None\<close> when nil.
\<close>

datatype gval =
    GString string
  | GInt int
  | GFloat32 "32 word"
  | GBool bool
  | GSlice "gval list"
  | GPtr "gval option"
  | GStruct "gval list"

datatype kind = KString | KInt | KFloat32 | KBool | KSlice | KPtr

type_synonym field = "string \<times> kind \<times> string \<times> bool"

definition field_kind :: "field \<Rightarrow> kind" where
  "field_kind f = fst (snd f)"

definition field_key :: "field \<Rightarrow> string" where
  "field_key f = fst (snd (snd f))"

definition field_omitempty :: "field \<Rightarrow> bool" where
  "field_omitempty f = snd (snd (snd f))"

text \<open>The zero value of a kind, and of a struct type.\<close>

fun zero_of :: "kind \<Rightarrow> gval" where
  "zero_of KString = GString []"
| "zero_of KInt = GInt 0"
| "zero_of KFloat32 = GFloat32 0"
| "zero_of KBool = GBool False"
| "zero_of KSlice = GSlice []"
| "zero_of KPtr = GPtr None"

definition zero_value :: "field list \<Rightarrow> gval list" where
  "zero_value T = map (\<lambda>f. zero_of (field_kind f)) T"

text \<open>
  \<^verbatim>\<open>isEmptyValue\<close> of \<^verbatim>\<open>encoding/json\<close>: length 0 for strings and slices, false,
  0, a float that compares equal to 0 (either sign), a nil pointer. A struct is
  never empty.
\<close>

fun isEmptyValue :: "gval \<Rightarrow> bool" where
  "isEmptyValue (GString s) = (length s = 0)"
| "isEmptyValue (GInt i) = (i = 0)"
| "isEmptyValue (GFloat32 w) = (take_bit 31 w = 0)"
| "isEmptyValue (GBool b) = (\<not> b)"
| "isEmptyValue (GSlice xs) = (length xs = 0)"
| "isEmptyValue (GPtr p) = (p = None)"
| "isEmptyValue (GStruct fs) = False"

text \<open>
  Two fields of one struct with the same JSON key cancel each other: the encoder
  drops both. \<open>encoded_fields\<close> pairs the remaining declarations with their values
  and leaves out every \<^verbatim>\<open>omitempty\<close> field whose value is empty.
\<close>

definition dominant :: "field list \<Rightarrow> field \<Rightarrow> bool" where
  "dominant T f = (length (filter (\<lambda>g. field_key g = field_key f) T) = 1)"

definition encoded_fields :: "field list \<Rightarrow> gval list \<Rightarrow> (field \<times> gval) list" where
  "encoded_fields T v =
     filter (\<lambda>(f, x). dominant T f \<and> \<not> (field_omitempty f \<and> isEmptyValue x)) (zip T v)"

text \<open>
  The members of the object, in order; the first value that cannot be encoded
  fails the whole encoding. \<open>val\<close> is the encoder of a single value. The keys
  of the structs below need no escaping, so a key is written between two double
  quotes as it is.
\<close>

definition quote :: "string \<Rightarrow> string" where
  "quote s = [CHR 0x22] @ s @ [CHR 0x22]"

fun encode_members :: "(gval \<Rightarrow> go_error + string) \<Rightarrow> (field \<times> gval) list \<Rightarrow> go_error + string list" where
  "encode_members val [] = Inr []"
| "encode_members val ((f, x) # rest) =
     (case val x of
        Inl err \<Rightarrow> Inl err
      | Inr s \<Rightarrow>
          (case encode_members val rest of
             Inl err \<Rightarrow> Inl err
           | Inr ms \<Rightarrow> Inr ((quote (field_key f) @ '':'' @ s) # ms)))"

fun join_with :: "string \<Rightarrow> string list \<Rightarrow> string" where
  "join_with sep [] = []"
| "join_with sep [m] = m"
| "join_with sep (m # ms) = m @ sep @ join_with sep ms"

definition Marshal :: "(gval \<Rightarrow> go_error + string) \<Rightarrow> field list \<Rightarrow> gval list \<Rightarrow> go_error + bytes" where
  "Marshal val T v =
     (case encode_members val (encoded_fields T v) of
        Inl err \<Rightarrow> Inl err
      | Inr ms \<Rightarrow> Inr (''{'' @ join_with '','' ms @ ''}''))"

text \<open>\<^verbatim>\<open>json.NewEncoder(buf).Encode(v)\<close>: the encoding followed by a newline.\<close>

definition Encode :: "(gval \<Rightarrow> go_error + string) \<Rightarrow> field list \<Rightarrow> gval list \<Rightarrow> go_error + bytes" where
  "Encode val T v =
     (case Marshal val T v of Inl err \<Rightarrow> Inl err | Inr s \<Rightarrow> Inr (s @ [CHR 0x0A]))"

text \<open>The request option structs of \<^verbatim>\<open>client.go\<close>.\<close>

definition Txt2ImageOption :: "field list" where
  "Txt2ImageOption =
     [(''Prompt'', KString, ''prompt'', True),
      (''NegativePrompt'', KString, ''negative_prompt'', True),
      (''Steps'', KInt, ''steps'', True),
      (''CfgScale'', KFloat32, ''cfg_scale'', True),
      (''Width'', KInt, ''width'', True),
      (''Height'', KInt, ''height'', True),
      (''SamplerIndex'', KString, ''sampler_index'', True),
      (''OverrideSettings'', KPtr, ''override_settings'', True),
      (''EnableHR'', KBool, ''enable_hr'', True),
      (''DenoisingStrength'', KFloat32, ''denoising_strenght'', True),
      (''FirstPhaseWidth'', KInt, ''firstphase_width'', True),
      (''FirstPhaseHeight'', KInt, ''firstphase_height'', True),
      (''HRScale'', KFloat32, ''hr_scale'', True),
      (''HrUpscaler'', KString, ''hr_upscaler'', True),
      (''HrSecondPassSteps'', KInt, ''hr_second_pass_steps'', True),
      (''HrResizeX'', KInt, ''hr_resize_x'', True),
      (''HrResizeY'', KInt, ''hr_resize_y'', True),
      (''Styles'', KSlice, ''styles'', True),
      (''Seed'', KInt, ''seed'', True),
      (''Subseed'', KInt, ''subseed'', True),
      (''SubseedStrength'', KFloat32, ''subseed_strength'', True),
      (''SeedResizeFromH'', KInt, ''seed_resize_from_h'', True),
      (''SeedResizeFromW'', KInt, ''seed_resize_from_w'', True),
      (''SamplerName'', KString, ''sampler_name'', True),
      (''BatchSize'', KInt, ''batch_size'', True),
      (''NIter'', KInt, ''n_iter'', True),
      (''RestoreFaces'', KBool, ''restore_faces'', True),
      (''Tiling'', KBool, ''tiling'', True),
      (''Eta'', KFloat32, ''eta'', True),
      (''SChurn'', KFloat32, ''s_churn'', True),
      (''STmax'', KFloat32, ''s_tmax'', True),
      (''STmin'', KFloat32, ''s_tmin'', True),
      (''SNoise'', KFloat32, ''s_noise'', True),
      (''OverrideSettingsRestoreAfterwards'', KBool, ''override_settings_restore_afterwards'', True),
      (''ScriptArgs'', KSlice, ''script_args'', True),
      (''ScriptName'', KString, ''script_name'', True)]"

definition Img2ImgOption :: "field list" where
  "Img2ImgOption =
     [(''InitImages'', KSlice, ''init_images'', True),
      (''ResizeMode'', KInt, ''resize_mode'', True),
      (''DenoisingStrength'', KFloat32, ''denoising_strength'', True),
      (''ImageCfgScale'', KFloat32, ''image_cfg_scale'', True),
      (''Mask'', KString, ''mask'', True),
      (''MaskBlur'', KInt, ''mask_blur'', True),
      (''InpaintingFill'', KInt, ''inpainting_fill'', True),
      (''InpaintFullRes'', KBool, ''inpaint_full_res'', True),
      (''InpaintFullResPadding'', KInt, ''inpaint_full_res_padding'', True),
      (''InpaintingMaskInvert'', KInt, ''inpainting_mask_invert'', True),
      (''InitialNoiseMultiplier'', KInt, ''initial_noise_multiplier'', True),
      (''Prompt'', KString, ''prompt'', True),
      (''Styles'', KSlice, ''styles'', True),
      (''Seed'', KInt, ''seed'', True),
      (''Subseed'', KInt, ''subseed'', True),
      (''SubseedStrength'', KFloat32, ''subseed_strength'', True),
      (''SeedResizeFromH'', KInt, ''seed_resize_from_h'', True),
      (''SeedResizeFromW'', KInt, ''seed_resize_from_w'', True),
      (''SamplerName'', KString, ''sampler_name'', True),
      (''BatchSize'', KInt, ''batch_size'', True),
      (''NIter'', KInt, ''n_iter'', True),
      (''Steps'', KInt, ''steps'', True),
      (''CfgScale'', KFloat32, ''cfg_scale'', True),
      (''Width'', KInt, ''width'', True),
      (''Height'', KInt, ''height'', True),
      (''RestoreFaces'', KBool, ''restore_faces'', True),
      (''Tiling'', KBool, ''tiling'', True),
      (''NegativePrompt'', KString, ''negative_prompt'', True),
      (''Eta'', KFloat32, ''eta'', True),
      (''SChurn'', KFloat32, ''s_churn'', True),
      (''STmax'', KFloat32, ''s_tmax'', True),
      (''STmin'', KFloat32, ''s_tmin'', True),
      (''SNoise'', KInt, ''s_noise'', True),
      (''OverrideSettings'', KPtr, ''override_settings'', True),
      (''OverrideSettingsRestoreAfterwards'', KBool, ''override_settings_restore_afterwards'', True),
      (''ScriptArgs'', KSlice, ''script_args'', True),
      (''SamplerIndex'', KString, ''sampler_index'', True),
      (''IncludeInitImages'', KBool, ''include_init_images'', True),
      (''ScriptName'', KString, ''script_name'', True)]"

definition ExtraSingleImgOption :: "field list" where
  "ExtraSingleImgOption =
     [(''ResizeMode'', KInt, ''resize_mode'', True),
      (''ShowExtrasResults'', KBool, ''show_extras_results'', True),
      (''GfpganVisibility'', KInt, ''gfpgan_visibility'', True),
      (''CodeformerVisibility'', KInt, ''codeformer_visibility'', True),
      (''CodeformerWeight'', KInt, ''codeformer_weight'', True),
      (''UpscalingResize'', KInt, ''upscaling_resize'', True),
      (''UpscalingResizeW'', KInt, ''upscaling_resize_w'', True),
      (''UpscalingResizeH'', KInt, ''upscaling_resize_h'', True),
      (''UpscalingCrop'', KBool, ''upscaling_crop'', True),
      (''Upscaler1'', KString, ''upscaler_1'', True),
      (''Upscaler2'', KString, ''upscaler_2'', True),
      (''ExtrasUpscaler2Visibility'', KInt, ''extras_upscaler_2_visibility'', True),
      (''UpscaleFirst'', KBool, ''upscale_first'', True),
      (''Image'', KString, ''image'', True)]"

subsection \<open>HTTP requests, responses and the transport\<close>

text \<open>
  \<open>Header\<close> is the header map of the request, kept as an association list;
  \<^verbatim>\<open>Header.Set\<close> replaces the value of a key. \<open>ReqBody\<close> is the \<^verbatim>\<open>io.Reader\<close>
  handed to \<^verbatim>\<open>http.NewRequestWithContext\<close>: \<open>None\<close> for the nil reader, the
  buffered bytes otherwise. \<open>URL\<close> is the URL string the request was built from.
\<close>

record http_request =
  Method :: string
  URL :: string
  Header :: "(string \<times> string) list"
  ReqBody :: "bytes option"

text \<open>
  A response body is a stream: the bytes it holds, and the error (if any) that
  reading it to the end runs into.
\<close>

datatype body_stream = BodyStream bytes "go_error option"

record http_response =
  StatusCode :: int
  Body :: body_stream

text \<open>\<^verbatim>\<open>io.ReadAll\<close>: the whole content, or the read error.\<close>

fun ReadAll :: "body_stream \<Rightarrow> go_error + bytes" where
  "ReadAll (BodyStream d None) = Inr d"
| "ReadAll (BodyStream d (Some err)) = Inl err"

text \<open>
  \<^verbatim>\<open>*http.Client\<close>: its method \<^verbatim>\<open>Do\<close> answers a request with a response or a
  transport error. The remote server is behind it.
\<close>

datatype transport = Transport (Do: "http_request \<Rightarrow> go_error + http_response")

text \<open>
  The library functions the client calls and the embedding does not open:
  \<^item> \<open>request_error method url\<close>: the error of \<^verbatim>\<open>http.NewRequestWithContext\<close> for
    an invalid method, an unparsable URL or a nil context, \<open>None\<close> when it succeeds;
  \<^item> \<open>EncodeToString\<close>, \<open>DecodeString\<close>: \<^verbatim>\<open>base64.StdEncoding\<close>;
  \<^item> \<open>png_Encode\<close>: the bytes \<^verbatim>\<open>png.Encode\<close> writes into the buffer (its error
    is dropped by every caller here); \<open>png_Decode\<close>: \<^verbatim>\<open>png.Decode\<close>;
  \<^item> \<open>json_value\<close>: the JSON text \<^verbatim>\<open>encoding/json\<close> writes for one field value,
    or its error for a value it does not support (a NaN, for instance).
\<close>

record 'img lib =
  request_error :: "string \<Rightarrow> string \<Rightarrow> go_error option"
  EncodeToString :: "bytes \<Rightarrow> string"
  DecodeString :: "string \<Rightarrow> go_error + bytes"
  png_Encode :: "'img \<Rightarrow> bytes"
  png_Decode :: "bytes \<Rightarrow> go_error + 'img"
  json_value :: "gval \<Rightarrow> go_error + string"

text \<open>
  \<^verbatim>\<open>http.NewRequestWithContext\<close>: an empty method means GET; the headers start
  empty.
\<close>

definition NewRequestWithContext ::
  "('img, 'x) lib_scheme \<Rightarrow> string \<Rightarrow> string \<Rightarrow> bytes option \<Rightarrow> go_error + http_request" where
  "NewRequestWithContext L method url b =
     (let method = (if method = [] then ''GET'' else method) in
      case request_error L method url of
        Some err \<Rightarrow> Inl err
      | None \<Rightarrow> Inr \<lparr>Method = method, URL = url, Header = [], ReqBody = b\<rparr>)"

text \<open>\<^verbatim>\<open>req.Header.Set(key, value)\<close>.\<close>

fun update_header :: "string \<Rightarrow> string \<Rightarrow> (string \<times> string) list \<Rightarrow> (string \<times> string) list" where
  "update_header k v [] = [(k, v)]"
| "update_header k v (p # ps) = (if fst p = k then (k, v) # ps else p # update_header k v ps)"

definition Header_Set :: "http_request \<Rightarrow> string \<Rightarrow> string \<Rightarrow> http_request" where
  "Header_Set req k v = req\<lparr>Header := update_header k v (Header req)\<rparr>"

text \<open>
  \<^verbatim>\<open>req.SetBasicAuth(username, password)\<close> sets the header \<^verbatim>\<open>Authorization\<close> to
  \<^verbatim>\<open>"Basic " + base64(username + ":" + password)\<close>.
\<close>

definition basicAuth :: "('img, 'x) lib_scheme \<Rightarrow> string \<Rightarrow> string \<Rightarrow> string" where
  "basicAuth L user pass = EncodeToString L (user @ '':'' @ pass)"

definition SetBasicAuth :: "('img, 'x) lib_scheme \<Rightarrow> http_request \<Rightarrow> string \<Rightarrow> string \<Rightarrow> http_request" where
  "SetBasicAuth L req user pass = Header_Set req ''Authorization'' (''Basic '' @ basicAuth L user pass)"

subsection \<open>Client, NewClient and Error\<close>

record Client =
  cli :: "transport option"
  baseURL :: string
  username :: string
  password :: string

text \<open>
  \<^verbatim>\<open>NewClient(baseURL, username, password, httpCli)\<close> returns the client and a nil
  error. The composite literal sets \<^verbatim>\<open>cli\<close> and \<^verbatim>\<open>baseURL\<close> only: the fields
  \<^verbatim>\<open>username\<close> and \<^verbatim>\<open>password\<close> keep their zero value, the empty string.
\<close>

definition NewClient :: "string \<Rightarrow> string \<Rightarrow> string \<Rightarrow> transport option \<Rightarrow> Client \<times> go_error option" where
  "NewClient base user pass httpCli =
     (let base = (if length base = 0 then ''http://127.0.0.1:7860'' else base) in
      (\<lparr>cli = httpCli, baseURL = base, username = [], password = []\<rparr>, None))"

record Error =
  Err :: "go_error option"
  Msg :: string
  Response :: "http_response option"

text \<open>
  \<^verbatim>\<open>(*Error).Error()\<close>: empty for the nil receiver, otherwise
  \<^verbatim>\<open>Sprintf("%s: %+v", e.Msg, e.Err)\<close>, where a nil \<^verbatim>\<open>Err\<close> prints as \<^verbatim>\<open><nil>\<close>.
\<close>

definition Error_string :: "Error option \<Rightarrow> string" where
  "Error_string e =
     (case e of
        None \<Rightarrow> []
      | Some e \<Rightarrow> Msg e @ '': '' @ (case Err e of None \<Rightarrow> ''<nil>'' | Some c \<Rightarrow> c))"

definition Unwrap :: "Error \<Rightarrow> go_error option" where
  "Unwrap e = Err e"

text \<open>\<^verbatim>\<open>wrapError\<close>; the caller passes the formatted message.\<close>

definition wrapError :: "go_error option \<Rightarrow> http_response option \<Rightarrow> string \<Rightarrow> Error" where
  "wrapError err resp msg = \<lparr>Err = err, Msg = msg, Response = resp\<rparr>"

subsection \<open>doReq\<close>

text \<open>
  What a call does on the wire and to the response is recorded as a trace: \<open>Sent\<close>
  for a request handed to \<^verbatim>\<open>c.cli.Do\<close>, \<open>Parsed\<close> for a body handed to
  \<^verbatim>\<open>json.Unmarshal\<close>.
\<close>

datatype event = Sent http_request | Parsed bytes

text \<open>
  The first half of \<^verbatim>\<open>doReq\<close>, up to the basic-auth header: encode the body with
  the JSON encoder \<open>enc\<close> of its type, build the request against
  \<^verbatim>\<open>Sprintf("%s/sdapi/v1%s", c.baseURL, path)\<close>, set the content type, and attach
  the credentials when both are non-empty.
\<close>

definition doReq_request ::
  "('img, 'x) lib_scheme \<Rightarrow> ('b \<Rightarrow> go_error + bytes) \<Rightarrow> Client \<Rightarrow> string \<Rightarrow> string \<Rightarrow> 'b option
     \<Rightarrow> Error + http_request" where
  "doReq_request L enc c path method body =
     (case (case body of
              None \<Rightarrow> Inr None
            | Some v \<Rightarrow> (case enc v of Inl err \<Rightarrow> Inl err | Inr buf \<Rightarrow> Inr (Some buf))) of
        Inl err \<Rightarrow> Inl (wrapError (Some err) None ''failed to encode body'')
      | Inr b \<Rightarrow>
          (case NewRequestWithContext L method (baseURL c @ ''/sdapi/v1'' @ path) b of
             Inl err \<Rightarrow> Inl (wrapError (Some err) None ''failed to initialize request'')
           | Inr req \<Rightarrow>
               (let req = Header_Set req ''Content-Type'' ''application/json'' in
                Inr (if length (username c) \<noteq> 0 \<and> length (password c) \<noteq> 0
                     then SetBasicAuth L req (username c) (password c)
                     else req))))"

text \<open>
  \<^verbatim>\<open>doReq\<close>. The result pointer of the Go function is the \<open>Inr\<close> value here:
  \<open>dec\<close> is \<^verbatim>\<open>json.Unmarshal\<close> into the result type. A nil \<^verbatim>\<open>c.cli\<close> panics
  at \<^verbatim>\<open>c.cli.Do\<close>.
\<close>

definition doReq ::
  "('img, 'x) lib_scheme \<Rightarrow> ('b \<Rightarrow> go_error + bytes) \<Rightarrow> (bytes \<Rightarrow> go_error + 'r) \<Rightarrow> Client
     \<Rightarrow> string \<Rightarrow> string \<Rightarrow> 'b option \<Rightarrow> int \<Rightarrow> event list \<times> (Error + 'r) exec" where
  "doReq L enc dec c path method body expectedStatus =
     (case doReq_request L enc c path method body of
        Inl e \<Rightarrow> ([], Done (Inl e))
      | Inr req \<Rightarrow>
          (case cli c of
             None \<Rightarrow> ([], Panic)
           | Some t \<Rightarrow>
               (case Do t req of
                  Inl err \<Rightarrow> ([Sent req], Done (Inl (wrapError (Some err) None ''failed to do request'')))
                | Inr resp \<Rightarrow>
                    (case ReadAll (Body resp) of
                       Inl err \<Rightarrow>
                         ([Sent req],
                          Done (Inl (wrapError (Some err) (Some resp) ''failed to read response body'')))
                     | Inr data \<Rightarrow>
                         if StatusCode resp \<noteq> expectedStatus
                         then ([Sent req],
                               Done (Inl (wrapError None (Some resp)
                                 (''got bad status '' @ show_int (StatusCode resp) @ '', body: '' @ data))))
                         else (case dec data of
                                 Inl err \<Rightarrow>
                                   ([Sent req, Parsed data],
                                    Done (Inl (wrapError (Some err) (Some resp) ''failed to parse response'')))
                               | Inr r \<Rightarrow> ([Sent req, Parsed data], Done (Inr r)))))))"

subsection \<open>Image helpers\<close>

text \<open>
  \<^verbatim>\<open>Img2RawBase64\<close>, \<^verbatim>\<open>Img2Base64\<close> and \<^verbatim>\<open>ImgBytes2Base64\<close>. Each of the first
  two encodes the image into a fresh buffer, ignores the error of \<^verbatim>\<open>png.Encode\<close>
  and encodes the buffer's bytes.
\<close>

definition Img2RawBase64 :: "('img, 'x) lib_scheme \<Rightarrow> 'img \<Rightarrow> string" where
  "Img2RawBase64 L img = (let buf = png_Encode L img in EncodeToString L buf)"

definition Img2Base64 :: "('img, 'x) lib_scheme \<Rightarrow> 'img \<Rightarrow> string" where
  "Img2Base64 L img = (let buf = png_Encode L img in ''data:image/png;base64,'' @ EncodeToString L buf)"

definition ImgBytes2Base64 :: "('img, 'x) lib_scheme \<Rightarrow> bytes \<Rightarrow> string" where
  "ImgBytes2Base64 L data = ''data:image/png;base64,'' @ EncodeToString L data"

subsection \<open>strings.SplitN\<close>

text \<open>
  \<^verbatim>\<open>strings.SplitN(s, sep, n)\<close> for a one-byte separator, after \<^verbatim>\<open>genSplit\<close> of
  the Go library: nil for \<open>n = 0\<close>; all pieces for \<open>n < 0\<close>; otherwise at most \<open>n\<close>
  pieces, the last one being the unsplit remainder. The loop of \<^verbatim>\<open>genSplit\<close> cuts
  at most \<open>n - 1\<close> times.

  \<open>cut sep s\<close> is \<^verbatim>\<open>s[:m]\<close> and \<^verbatim>\<open>s[m+1:]\<close> for \<^verbatim>\<open>m = Index(s, sep)\<close>, \<open>None\<close>
  when \<open>sep\<close> does not occur.
\<close>

fun cut :: "char \<Rightarrow> string \<Rightarrow> (string \<times> string) option" where
  "cut sep [] = None"
| "cut sep (c # s) =
     (if c = sep then Some ([], s)
      else (case cut sep s of None \<Rightarrow> None | Some (a, b) \<Rightarrow> Some (c # a, b)))"

fun genSplit :: "string \<Rightarrow> char \<Rightarrow> nat \<Rightarrow> string list" where
  "genSplit s sep 0 = [s]"
| "genSplit s sep (Suc k) =
     (case cut sep s of None \<Rightarrow> [s] | Some (a, rest) \<Rightarrow> a # genSplit rest sep k)"

definition SplitN :: "string \<Rightarrow> char \<Rightarrow> int \<Rightarrow> string list" where
  "SplitN s sep n =
     (if n = 0 then []
      else
        (let n = (if n < 0 then int (count_list s sep) + 1 else n);
             n = (if n > int (length s) + 1 then int (length s) + 1 else n)
         in genSplit s sep (nat (n - 1))))"

subsection \<open>Txt2Img and Img2Img\<close>

text \<open>
  \<^verbatim>\<open>Txt2ImageResponse\<close> and \<^verbatim>\<open>Img2ImgResponse\<close> are declared with the same five
  fields, so one record serves both. \<open>Parameters\<close> points to a \<^verbatim>\<open>Txt2ImageOption\<close>
  value. \<open>ParsedImages\<close> and \<open>RawImages\<close> carry the tag \<^verbatim>\<open>json:"-"\<close>: the server
  never fills them.
\<close>

record 'img ImagesResponse =
  Images :: "string list"
  Parameters :: "gval list option"
  Info :: string
  ParsedImages :: "'img list"
  RawImages :: "bytes list"

type_synonym 'img Txt2ImageResponse = "'img ImagesResponse"

type_synonym 'img Img2ImgResponse = "'img ImagesResponse"

text \<open>
  The loop over \<^verbatim>\<open>res.Images\<close>, which \<^verbatim>\<open>Txt2Img\<close> and \<^verbatim>\<open>Img2Img\<close> both contain
  word for word; \<open>imgs\<close> and \<open>raws\<close> are the two slices it appends to. Each
  \<^verbatim>\<open>continue\<close> is a recursive call with the slices as they are at that point.
\<close>

fun decodeImages ::
  "('img, 'x) lib_scheme \<Rightarrow> string list \<Rightarrow> 'img list \<Rightarrow> bytes list \<Rightarrow> ('img list \<times> bytes list) exec" where
  "decodeImages L [] imgs raws = Done (imgs, raws)"
| "decodeImages L (raw # rest) imgs raws =
     (case index0 (SplitN raw CHR '','' 1) of
        Panic \<Rightarrow> Panic
      | Done raw \<Rightarrow>
          (case DecodeString L raw of
             Inl err \<Rightarrow> decodeImages L rest imgs raws
           | Inr data \<Rightarrow>
               (let raws = raws @ [data] in
                case png_Decode L data of
                  Inl err \<Rightarrow> decodeImages L rest imgs raws
                | Inr img \<Rightarrow> decodeImages L rest (imgs @ [img]) raws)))"

text \<open>
  What both functions do once \<^verbatim>\<open>doReq\<close> has returned: pass the error on, or run
  the loop and store the two slices in the response.
\<close>

definition enrichImages ::
  "('img, 'x) lib_scheme \<Rightarrow> event list \<times> (Error + 'img ImagesResponse) exec
     \<Rightarrow> event list \<times> (Error + 'img ImagesResponse) exec" where
  "enrichImages L r =
     (case r of
        (tr, Panic) \<Rightarrow> (tr, Panic)
      | (tr, Done (Inl err)) \<Rightarrow> (tr, Done (Inl err))
      | (tr, Done (Inr res)) \<Rightarrow>
          (case decodeImages L (Images res) [] [] of
             Panic \<Rightarrow> (tr, Panic)
           | Done (imgs, raws) \<Rightarrow> (tr, Done (Inr (res\<lparr>ParsedImages := imgs, RawImages := raws\<rparr>)))))"

definition Txt2Img ::
  "('img, 'x) lib_scheme \<Rightarrow> (bytes \<Rightarrow> go_error + 'img Txt2ImageResponse) \<Rightarrow> Client \<Rightarrow> gval list
     \<Rightarrow> event list \<times> (Error + 'img Txt2ImageResponse) exec" where
  "Txt2Img L dec c opt =
     enrichImages L
       (doReq L (Encode (json_value L) Txt2ImageOption) dec c ''/txt2img'' ''POST'' (Some opt) 200)"

definition Img2Img ::
  "('img, 'x) lib_scheme \<Rightarrow> (bytes \<Rightarrow> go_error + 'img Img2ImgResponse) \<Rightarrow> Client \<Rightarrow> gval list
     \<Rightarrow> event list \<times> (Error + 'img Img2ImgResponse) exec" where
  "Img2Img L dec c opt =
     enrichImages L
       (doReq L (Encode (json_value L) Img2ImgOption) dec c ''/img2img'' ''POST'' (Some opt) 200)"

subsection \<open>ExtraSingleImg\<close>

text \<open>
  \<open>RawImage\<close> is \<open>None\<close> for the nil slice and \<open>ParsedImage\<close> is \<open>None\<close> for the
  nil interface; both are left as they are when a decoding step fails.
\<close>

record 'img ExtraSingleImgResponse =
  HTMLInfo :: string
  Image :: string
  ParsedImage :: "'img option"
  RawImage :: "bytes option"

definition ExtraSingleImg ::
  "('img, 'x) lib_scheme \<Rightarrow> (bytes \<Rightarrow> go_error + 'img ExtraSingleImgResponse) \<Rightarrow> Client \<Rightarrow> gval list
     \<Rightarrow> event list \<times> (Error + 'img ExtraSingleImgResponse) exec" where
  "ExtraSingleImg L dec c opt =
     (case doReq L (Encode (json_value L) ExtraSingleImgOption) dec c
             ''/extra-single-image'' ''POST'' (Some opt) 200 of
        (tr, Panic) \<Rightarrow> (tr, Panic)
      | (tr, Done (Inl err)) \<Rightarrow> (tr, Done (Inl err))
      | (tr, Done (Inr res)) \<Rightarrow>
          (case index0 (SplitN (Image res) CHR '','' 1) of
             Panic \<Rightarrow> (tr, Panic)
           | Done raw \<Rightarrow>
               (case DecodeString L raw of
                  Inl err \<Rightarrow> (tr, Done (Inr res))
                | Inr data \<Rightarrow>
                    (let res = res\<lparr>RawImage := Some data\<rparr> in
                     case png_Decode L data of
                       Inl err \<Rightarrow> (tr, Done (Inr res))
                     | Inr img \<Rightarrow> (tr, Done (Inr (res\<lparr>ParsedImage := Some img\<rparr>)))))))"

subsection \<open>The endpoints without a request body\<close>

text \<open>
  Each passes a nil body, so no encoder runs; \<open>no_body\<close> stands for the encoder
  that is never called. The response type is whatever \<open>dec\<close> decodes into.
\<close>

definition no_body :: "unit \<Rightarrow> go_error + bytes" where
  "no_body u = Inr []"

definition GetProgress ::
  "('img, 'x) lib_scheme \<Rightarrow> (bytes \<Rightarrow> go_error + 'r) \<Rightarrow> Client \<Rightarrow> bool \<Rightarrow> event list \<times> (Error + 'r) exec" where
  "GetProgress L dec c skipCurrentImg =
     doReq L no_body dec c (''/progress?skip_current_image='' @ show_bool skipCurrentImg) ''GET'' None 200"

definition GetOptions ::
  "('img, 'x) lib_scheme \<Rightarrow> (bytes \<Rightarrow> go_error + 'r) \<Rightarrow> Client \<Rightarrow> event list \<times> (Error + 'r) exec" where
  "GetOptions L dec c = doReq L no_body dec c ''/options'' ''GET'' None 200"

definition GetModels ::
  "('img, 'x) lib_scheme \<Rightarrow> (bytes \<Rightarrow> go_error + 'r) \<Rightarrow> Client \<Rightarrow> event list \<times> (Error + 'r) exec" where
  "GetModels L dec c = doReq L no_body dec c ''/sd-models'' ''GET'' None 200"

definition GetMemory ::
  "('img, 'x) lib_scheme \<Rightarrow> (bytes \<Rightarrow> go_error + 'r) \<Rightarrow> Client \<Rightarrow> event list \<times> (Error + 'r) exec" where
  "GetMemory L dec c = doReq L no_body dec c ''/memory'' ''GET'' None 200"

subsection \<open>Notions of the specification\<close>

text \<open>
  The specification speaks of an entry that "fails base64 decoding or PNG
  decoding". These three functions say which entries decode, and to what, in
  terms of the two library decoders alone.
\<close>

definition base64_payload :: "('img, 'x) lib_scheme \<Rightarrow> string \<Rightarrow> bytes option" where
  "base64_payload L raw = (case DecodeString L raw of Inl err \<Rightarrow> None | Inr data \<Rightarrow> Some data)"

definition png_image :: "('img, 'x) lib_scheme \<Rightarrow> bytes \<Rightarrow> 'img option" where
  "png_image L data = (case png_Decode L data of Inl err \<Rightarrow> None | Inr img \<Rightarrow> Some img)"

definition decoded_image :: "('img, 'x) lib_scheme \<Rightarrow> string \<Rightarrow> 'img option" where
  "decoded_image L raw =
     (case base64_payload L raw of None \<Rightarrow> None | Some data \<Rightarrow> png_image L data)"

subsection \<open>Fixtures\<close>

text \<open>
  A fixture library and fixture servers, in the manner of the specification's
  testable properties. Images are numbered. The base64 decoder knows two
  payloads: \<^verbatim>\<open>UE5H\<close>, the bytes \<^verbatim>\<open>PNG\<close>, which the PNG decoder accepts as image 7,
  and \<^verbatim>\<open>QQ==\<close>, the byte \<^verbatim>\<open>A\<close>, which it rejects.
\<close>

definition fixture_lib :: "nat lib" where
  "fixture_lib =
     \<lparr>request_error = (\<lambda>method url. None),
      EncodeToString = (\<lambda>b. if b = ''PNG'' then ''UE5H'' else if b = ''A'' then ''QQ=='' else []),
      DecodeString =
        (\<lambda>s. if s = ''UE5H'' then Inr ''PNG''
             else if s = ''QQ=='' then Inr ''A''
             else Inl ''illegal base64 data at input byte 0''),
      png_Encode = (\<lambda>img. ''PNG''),
      png_Decode = (\<lambda>b. if b = ''PNG'' then Inr 7 else Inl ''png: invalid format: not a PNG file''),
      json_value = (\<lambda>v. Inl ''json: unsupported value'')\<rparr>"

text \<open>A server that answers every request with the same status and body.\<close>

definition fixture_server :: "int \<Rightarrow> bytes \<Rightarrow> transport" where
  "fixture_server status body = Transport (\<lambda>req. Inr \<lparr>StatusCode = status, Body = BodyStream body None\<rparr>)"

text \<open>
  A server whose response body breaks off: reading it to the end fails with
  \<open>err\<close>, whatever bytes \<open>body\<close> it had begun to deliver.
\<close>

definition fixture_broken_server :: "int \<Rightarrow> bytes \<Rightarrow> go_error \<Rightarrow> transport" where
  "fixture_broken_server status body err =
     Transport (\<lambda>req. Inr \<lparr>StatusCode = status, Body = BodyStream body (Some err)\<rparr>)"

text \<open>
  A response body with three image strings, and the decoder of the response type
  on it; every other body is malformed for this decoder.
\<close>

definition fixture_body :: bytes where
  "fixture_body =
     ''{'' @ quote ''images'' @ '':['' @ quote ''UE5H'' @ '','' @ quote ''QQ=='' @ '','' @ quote ''!!''
       @ ''],'' @ quote ''info'' @ '':'' @ quote ''x'' @ ''}''"

definition fixture_dec :: "bytes \<Rightarrow> go_error + nat ImagesResponse" where
  "fixture_dec data =
     (if data = fixture_body
      then Inr \<lparr>Images = [''UE5H'', ''QQ=='', ''!!''], Parameters = None, Info = ''x'',
                ParsedImages = [], RawImages = []\<rparr>
      else Inl ''invalid character in JSON input'')"

text \<open>
  A client built by \<^verbatim>\<open>NewClient\<close> with the default base URL on top of a fixture
  server, the request such a client builds for a method, a path and a body, and
  what a call that posts a zero option struct leaves in the trace.
\<close>

definition fixture_client :: "bytes \<Rightarrow> int \<Rightarrow> Client" where
  "fixture_client body status = fst (NewClient [] [] [] (Some (fixture_server status body)))"

definition fixture_request :: "string \<Rightarrow> string \<Rightarrow> bytes option \<Rightarrow> http_request" where
  "fixture_request method path b =
     \<lparr>Method = method, URL = ''http://127.0.0.1:7860/sdapi/v1'' @ path,
      Header = [(''Content-Type'', ''application/json'')], ReqBody = b\<rparr>"

definition fixture_trace :: "string \<Rightarrow> event list" where
  "fixture_trace path =
     [Sent (fixture_request ''POST'' path (Some (''{}'' @ [CHR 0x0A]))), Parsed fixture_body]"

text \<open>The response \<open>fixture_dec\<close> decodes, after the loop has filled the two lists.\<close>

definition fixture_response :: "nat ImagesResponse" where
  "fixture_response =
     \<lparr>Images = [''UE5H'', ''QQ=='', ''!!''], Parameters = None, Info = ''x'',
      ParsedImages = [7], RawImages = [''PNG'', ''A'']\<rparr>"

section \<open>Auxiliary lemmas\<close>

subsection \<open>SplitN with limit 1 and the decoding loop\<close>

lemma SplitN_one: "SplitN s sep 1 = [s]"
  by (simp add: SplitN_def)

lemma index0_SplitN_one: "index0 (SplitN s sep 1) = Done s"
  by (simp add: SplitN_one index0_def)

text \<open>
  The loop never panics, and its two results are the two filters: the payloads
  that decode, and among those the ones that are PNG images.
\<close>

lemma decodeImages_eq:
  "decodeImages L xs imgs raws =
     Done (imgs @ List.map_filter (png_image L) (List.map_filter (base64_payload L) xs),
           raws @ List.map_filter (base64_payload L) xs)"
  by (induction xs arbitrary: imgs raws)
     (auto simp: index0_SplitN_one base64_payload_def png_image_def Let_def
           split: sum.splits)

lemma map_filter_decoded:
  "List.map_filter (png_image L) (List.map_filter (base64_payload L) xs)
     = List.map_filter (decoded_image L) xs"
  by (induction xs) (auto simp: decoded_image_def split: option.splits)

lemma length_map_filter_le: "length (List.map_filter f xs) \<le> length xs"
  by (induction xs) (auto split: option.splits)

lemma enrichImages_Inr:
  "enrichImages L (tr, Done (Inr res)) =
     (tr, Done (Inr (res\<lparr>ParsedImages :=
                           List.map_filter (png_image L) (List.map_filter (base64_payload L) (Images res)),
                         RawImages := List.map_filter (base64_payload L) (Images res)\<rparr>)))"
  by (simp add: enrichImages_def decodeImages_eq)

lemma enrichImages_Inl: "enrichImages L (tr, Done (Inl e)) = (tr, Done (Inl e))"
  by (simp add: enrichImages_def)

lemma enrichImages_success:
  assumes "enrichImages L r = (tr, Done (Inr out))"
  shows "\<exists>res. r = (tr, Done (Inr res))
           \<and> out = res\<lparr>ParsedImages :=
                          List.map_filter (png_image L) (List.map_filter (base64_payload L) (Images res)),
                        RawImages := List.map_filter (base64_payload L) (Images res)\<rparr>"
proof (cases r)
  case (Pair tr' x)
  show ?thesis
  proof (cases x)
    case Panic
    with Pair assms show ?thesis by (simp add: enrichImages_def)
  next
    case (Done y)
    show ?thesis
    proof (cases y)
      case (Inl e)
      with Pair Done assms show ?thesis by (simp add: enrichImages_def)
    next
      case (Inr res)
      with Pair Done assms show ?thesis by (auto simp: enrichImages_Inr)
    qed
  qed
qed

subsection \<open>Endpoints pass the error of doReq on\<close>

lemma Txt2Img_passes_error:
  "doReq L (Encode (json_value L) Txt2ImageOption) dec c ''/txt2img'' ''POST'' (Some opt) 200
     = (tr, Done (Inl e))
   \<Longrightarrow> Txt2Img L dec c opt = (tr, Done (Inl e))"
  by (simp add: Txt2Img_def enrichImages_Inl)

lemma Img2Img_passes_error:
  "doReq L (Encode (json_value L) Img2ImgOption) dec c ''/img2img'' ''POST'' (Some opt) 200
     = (tr, Done (Inl e))
   \<Longrightarrow> Img2Img L dec c opt = (tr, Done (Inl e))"
  by (simp add: Img2Img_def enrichImages_Inl)

lemma ExtraSingleImg_passes_error:
  "doReq L (Encode (json_value L) ExtraSingleImgOption) dec c ''/extra-single-image'' ''POST'' (Some opt) 200
     = (tr, Done (Inl e))
   \<Longrightarrow> ExtraSingleImg L dec c opt = (tr, Done (Inl e))"
  by (simp add: ExtraSingleImg_def)

subsection \<open>Encoding a zero struct\<close>

lemma all_omitempty_encoded_fields:
  assumes "list_all field_omitempty T"
  shows "encoded_fields T (zero_value T) = []"
proof -
  have e: "isEmptyValue (zero_of k)" for k
    by (cases k) simp_all
  have "field_omitempty (fst p) \<and> isEmptyValue (snd p)" if p: "p \<in> set (zip T (zero_value T))" for p
  proof -
    from p obtain i where i: "i < length T" "p = (T ! i, zero_value T ! i)"
      by (auto simp: set_zip zero_value_def)
    with assms show ?thesis
      by (simp add: zero_value_def e list_all_length)
  qed
  then show ?thesis
    unfolding encoded_fields_def by (auto simp: filter_empty_conv)
qed

lemma Encode_zero:
  "list_all field_omitempty T \<Longrightarrow> Encode val T (zero_value T) = Inr (''{}'' @ [CHR 0x0A])"
  by (simp add: Encode_def Marshal_def all_omitempty_encoded_fields)

lemma Txt2ImageOption_omitempty: "list_all field_omitempty Txt2ImageOption"
  by (simp add: Txt2ImageOption_def field_omitempty_def)

lemma Img2ImgOption_omitempty: "list_all field_omitempty Img2ImgOption"
  by (simp add: Img2ImgOption_def field_omitempty_def)


text \<open>
  The encoder is not constant: a struct with one field set encodes to an object
  with that one member.
\<close>

lemma Encode_resize_mode:
  "Encode (\<lambda>v. Inr ''1'') ExtraSingleImgOption (GInt 1 # tl (zero_value ExtraSingleImgOption))
     = Inr (''{'' @ quote ''resize_mode'' @ '':1}'' @ [CHR 0x0A])"
  by (simp add: Encode_def Marshal_def encoded_fields_def dominant_def ExtraSingleImgOption_def
        zero_value_def field_key_def field_kind_def field_omitempty_def)

subsection \<open>The request doReq sends\<close>

lemma doReq_request_URL:
  "doReq_request L enc c path method body = Inr req \<Longrightarrow> URL req = baseURL c @ ''/sdapi/v1'' @ path"
  by (auto simp: doReq_request_def NewRequestWithContext_def SetBasicAuth_def Header_Set_def Let_def
           split: option.splits sum.splits if_splits)

lemma doReq_trace_Sent:
  "Sent r \<in> set (fst (doReq L enc dec c path method body expectedStatus))
     \<Longrightarrow> doReq_request L enc c path method body = Inr r"
  by (auto simp: doReq_def split: option.splits sum.splits if_splits)

subsection \<open>The fixtures, evaluated\<close>

lemma show_int_500: "show_int 500 = ''500''"
  by code_simp

lemma fixture_client_cli: "cli (fixture_client body status) = Some (fixture_server status body)"
  by (simp add: fixture_client_def NewClient_def)

lemma fixture_doReq_request:
  "doReq_request fixture_lib enc (fixture_client body status) path ''GET'' None
     = Inr (fixture_request ''GET'' path None)"
  by (simp add: doReq_request_def fixture_client_def NewClient_def NewRequestWithContext_def
        fixture_lib_def Header_Set_def fixture_request_def Let_def)

lemma fixture_broken_doReq:
  "doReq fixture_lib no_body fixture_dec
     (fst (NewClient [] [] [] (Some (fixture_broken_server status body err)))) ''/memory'' ''GET'' None 200
     = ([Sent (fixture_request ''GET'' ''/memory'' None)],
        Done (Inl \<lparr>Err = Some err, Msg = ''failed to read response body'',
                   Response = Some \<lparr>StatusCode = status, Body = BodyStream body (Some err)\<rparr>\<rparr>))"
  by (simp add: doReq_def doReq_request_def NewClient_def NewRequestWithContext_def fixture_lib_def
        Header_Set_def fixture_broken_server_def fixture_request_def wrapError_def Let_def)

lemma read_error_text:
  "Error_string (Some \<lparr>Err = Some ''unexpected EOF'', Msg = ''failed to read response body'',
                        Response = r\<rparr>)
     = ''failed to read response body: unexpected EOF''"
  by (simp add: Error_string_def)

lemma read_error_text_has_no_500: "\<not> sublist ''500'' ''failed to read response body: unexpected EOF''"
  by code_simp

lemma read_error_text_has_no_boom: "\<not> sublist ''boom'' ''failed to read response body: unexpected EOF''"
  by code_simp

lemma fixture_doReq_request_zero:
  "list_all field_omitempty T \<Longrightarrow>
   doReq_request fixture_lib (Encode val T) (fixture_client body status) path ''POST'' (Some (zero_value T))
     = Inr (fixture_request ''POST'' path (Some (''{}'' @ [CHR 0x0A])))"
  by (simp add: doReq_request_def fixture_client_def NewClient_def NewRequestWithContext_def
        fixture_lib_def Header_Set_def fixture_request_def Let_def Encode_zero)

lemma fixture_doReq_images:
  assumes "list_all field_omitempty T"
  shows "doReq fixture_lib (Encode val T) fixture_dec (fixture_client fixture_body 200) path ''POST''
           (Some (zero_value T)) 200
         = (fixture_trace path,
            Done (Inr \<lparr>Images = [''UE5H'', ''QQ=='', ''!!''], Parameters = None, Info = ''x'',
                       ParsedImages = [], RawImages = []\<rparr>))"
  by (simp add: doReq_def fixture_doReq_request_zero [OF assms] fixture_client_cli fixture_server_def
        fixture_dec_def fixture_trace_def)

lemma fixture_Txt2Img:
  "Txt2Img fixture_lib fixture_dec (fixture_client fixture_body 200) (zero_value Txt2ImageOption)
     = (fixture_trace ''/txt2img'', Done (Inr fixture_response))"
  unfolding Txt2Img_def fixture_doReq_images [OF Txt2ImageOption_omitempty] enrichImages_Inr
  by (simp add: base64_payload_def png_image_def fixture_lib_def fixture_response_def)

lemma fixture_Img2Img:
  "Img2Img fixture_lib fixture_dec (fixture_client fixture_body 200) (zero_value Img2ImgOption)
     = (fixture_trace ''/img2img'', Done (Inr fixture_response))"
  unfolding Img2Img_def fixture_doReq_images [OF Img2ImgOption_omitempty] enrichImages_Inr
  by (simp add: base64_payload_def png_image_def fixture_lib_def fixture_response_def)

section \<open>The claims\<close>

text \<open>
  Claim C1 says that a client built by \<^verbatim>\<open>NewClient\<close> with a non-empty username and
  password sends basic-auth credentials with every request. \<^verbatim>\<open>doReq\<close> attaches
  them from the fields \<^verbatim>\<open>c.username\<close> and \<^verbatim>\<open>c.password\<close>, but \<^verbatim>\<open>NewClient\<close>
  never stores its two arguments there. At \<^verbatim>\<open>NewClient("", "user", "pass", cli)\<close>
  both fields are empty, and the request of \<^verbatim>\<open>GetMemory\<close> carries the content
  type as its only header: no \<^verbatim>\<open>Authorization\<close>.
\<close>

theorem NewClient_drops_credentials:
  "username (fst (NewClient [] ''user'' ''pass'' (Some (fixture_server 200 fixture_body)))) = []
   \<and> password (fst (NewClient [] ''user'' ''pass'' (Some (fixture_server 200 fixture_body)))) = []
   \<and> fst (GetMemory fixture_lib fixture_dec
            (fst (NewClient [] ''user'' ''pass'' (Some (fixture_server 200 fixture_body)))))
       = [Sent \<lparr>Method = ''GET'', URL = ''http://127.0.0.1:7860/sdapi/v1/memory'',
                Header = [(''Content-Type'', ''application/json'')], ReqBody = None\<rparr>,
          Parsed fixture_body]"
  by (simp add: GetMemory_def doReq_def doReq_request_def NewClient_def NewRequestWithContext_def
        fixture_lib_def Header_Set_def fixture_server_def fixture_dec_def Let_def)

text \<open>
  Claim C2 says that the payload extraction returns the prefix before the first
  comma of an image string that contains one. The extraction is
  \<^verbatim>\<open>strings.SplitN(raw, ",", 1)[0]\<close>, and a limit of 1 never splits: on
  \<^verbatim>\<open>data:image/png;base64,UE5H\<close> it returns the whole string, comma and payload
  included, where the prefix before the first comma is \<^verbatim>\<open>data:image/png;base64\<close>.
\<close>

theorem SplitN_limit_one_keeps_whole_string:
  "index0 (SplitN ''data:image/png;base64,UE5H'' CHR '','' 1) = Done ''data:image/png;base64,UE5H''
   \<and> cut CHR '','' ''data:image/png;base64,UE5H'' = Some (''data:image/png;base64'', ''UE5H'')
   \<and> index0 (SplitN ''data:image/png;base64,UE5H'' CHR '','' 2) = Done ''data:image/png;base64''"
  by (simp add: SplitN_def index0_def)

text \<open>
  Claim C3, amended. Whenever the response body has been read to the end and the
  status code of the response differs from the expected one, the call returns a
  status error: no underlying cause, the response attached, and a message that
  contains the decimal status code and the body text as it was read. The body is
  not handed to the JSON decoder: the trace has no \<open>Parsed\<close> event, and the
  outcome is the same for every decoder \<open>dec\<close>. Every endpoint calls
  \<^verbatim>\<open>doReq\<close> with 200 and passes its error on unchanged.

  The premise on the body is needed: \<^verbatim>\<open>doReq\<close> reads the body before it looks
  at the status code and returns the read error first.
\<close>

theorem bad_status_yields_status_error:
  assumes "doReq_request L enc c path method body = Inr req"
    and "cli c = Some t"
    and "Do t req = Inr resp"
    and "ReadAll (Body resp) = Inr data"
    and "StatusCode resp \<noteq> expectedStatus"
  shows "\<exists>e. doReq L enc dec c path method body expectedStatus = ([Sent req], Done (Inl e))
           \<and> Err e = None \<and> Response e = Some resp
           \<and> Msg e = ''got bad status '' @ show_int (StatusCode resp) @ '', body: '' @ data
           \<and> sublist (show_int (StatusCode resp)) (Error_string (Some e))
           \<and> sublist data (Error_string (Some e))
           \<and> (\<forall>d. Parsed d \<notin> set (fst (doReq L enc dec c path method body expectedStatus)))"
proof -
  let ?m = "''got bad status '' @ show_int (StatusCode resp) @ '', body: '' @ data"
  let ?e = "wrapError None (Some resp) ?m"
  have r: "doReq L enc dec c path method body expectedStatus = ([Sent req], Done (Inl ?e))"
    using assms by (simp add: doReq_def)
  have s: "Error_string (Some ?e)
             = ''got bad status '' @ show_int (StatusCode resp) @ ('', body: '' @ data @ '': <nil>'')"
    by (simp add: Error_string_def wrapError_def)
  have s1: "sublist (show_int (StatusCode resp)) (Error_string (Some ?e))"
    unfolding s by (rule sublist_appendI)
  have s': "Error_string (Some ?e)
              = (''got bad status '' @ show_int (StatusCode resp) @ '', body: '') @ data @ '': <nil>''"
    by (simp add: Error_string_def wrapError_def)
  have s2: "sublist data (Error_string (Some ?e))"
    unfolding s' by (rule sublist_appendI)
  show ?thesis
    using r s1 s2 by (intro exI [of _ ?e]) (simp add: wrapError_def)
qed

theorem bad_status_yields_status_error_witness:
  "\<exists>e. doReq fixture_lib no_body fixture_dec (fixture_client ''boom'' 500) ''/memory'' ''GET'' None 200
          = ([Sent (fixture_request ''GET'' ''/memory'' None)], Done (Inl e))
       \<and> Msg e = ''got bad status 500, body: boom''
       \<and> sublist ''500'' (Error_string (Some e))
       \<and> sublist ''boom'' (Error_string (Some e))"
proof -
  have h1: "doReq_request fixture_lib no_body (fixture_client ''boom'' 500) ''/memory'' ''GET'' None
              = Inr (fixture_request ''GET'' ''/memory'' None)"
    by (rule fixture_doReq_request)
  have h2: "cli (fixture_client ''boom'' 500) = Some (fixture_server 500 ''boom'')"
    by (rule fixture_client_cli)
  have h3: "Do (fixture_server 500 ''boom'') (fixture_request ''GET'' ''/memory'' None)
              = Inr \<lparr>StatusCode = 500, Body = BodyStream ''boom'' None\<rparr>"
    by (simp add: fixture_server_def)
  have h4: "ReadAll (Body \<lparr>StatusCode = 500, Body = BodyStream ''boom'' None\<rparr>) = Inr ''boom''"
    by simp
  have h5: "StatusCode \<lparr>StatusCode = 500, Body = BodyStream ''boom'' None\<rparr> \<noteq> 200"
    by simp
  from bad_status_yields_status_error [OF h1 h2 h3 h4 h5, of fixture_dec] obtain e where
    "doReq fixture_lib no_body fixture_dec (fixture_client ''boom'' 500) ''/memory'' ''GET'' None 200
       = ([Sent (fixture_request ''GET'' ''/memory'' None)], Done (Inl e))"
    "Msg e = ''got bad status '' @ show_int 500 @ '', body: '' @ ''boom''"
    "sublist (show_int 500) (Error_string (Some e))"
    "sublist ''boom'' (Error_string (Some e))"
    by auto
  then show ?thesis
    by (intro exI [of _ e]) (simp add: show_int_500)
qed

text \<open>
  Claim C3 as it is worded, for every response with a differing status code, fails
  when the body cannot be read: a response with status 500 whose body breaks off
  with \<^verbatim>\<open>unexpected EOF\<close> yields the read error, and its message contains
  neither \<^verbatim>\<open>500\<close> nor the bytes \<^verbatim>\<open>boom\<close> the body had begun with.
\<close>

theorem bad_status_unread_body_counterexample:
  "StatusCode \<lparr>StatusCode = 500, Body = BodyStream ''boom'' (Some ''unexpected EOF'')\<rparr> \<noteq> 200
   \<and> doReq fixture_lib no_body fixture_dec
         (fst (NewClient [] [] [] (Some (fixture_broken_server 500 ''boom'' ''unexpected EOF''))))
         ''/memory'' ''GET'' None 200
       = ([Sent (fixture_request ''GET'' ''/memory'' None)],
          Done (Inl \<lparr>Err = Some ''unexpected EOF'', Msg = ''failed to read response body'',
                     Response = Some \<lparr>StatusCode = 500,
                                       Body = BodyStream ''boom'' (Some ''unexpected EOF'')\<rparr>\<rparr>))
   \<and> \<not> sublist ''500''
         (Error_string (Some \<lparr>Err = Some ''unexpected EOF'', Msg = ''failed to read response body'',
                               Response = Some \<lparr>StatusCode = 500,
                                                 Body = BodyStream ''boom'' (Some ''unexpected EOF'')\<rparr>\<rparr>))
   \<and> \<not> sublist ''boom''
         (Error_string (Some \<lparr>Err = Some ''unexpected EOF'', Msg = ''failed to read response body'',
                               Response = Some \<lparr>StatusCode = 500,
                                                 Body = BodyStream ''boom'' (Some ''unexpected EOF'')\<rparr>\<rparr>))"
  unfolding read_error_text
  using fixture_broken_doReq [of 500 "''boom''" "''unexpected EOF''"]
    read_error_text_has_no_500 read_error_text_has_no_boom
  by simp

text \<open>
  Claim C4. For the image strings that txt2img or img2img returned, the call
  succeeds whatever the number of entries that fail to decode: the decoded images
  are exactly those of the entries that pass both the base64 and the PNG decoder,
  in order, the entries that fail are left out, and the list of decoded images is
  no longer than the list of image strings.
\<close>

theorem decode_failures_are_skipped:
  "(doReq L (Encode (json_value L) Txt2ImageOption) dec c ''/txt2img'' ''POST'' (Some opt) 200
      = (tr, Done (Inr res))
    \<longrightarrow> (\<exists>out. Txt2Img L dec c opt = (tr, Done (Inr out))
           \<and> Images out = Images res
           \<and> ParsedImages out = List.map_filter (decoded_image L) (Images res)
           \<and> length (ParsedImages out) \<le> length (Images res)))
   \<and> (doReq L (Encode (json_value L) Img2ImgOption) dec c ''/img2img'' ''POST'' (Some opt) 200
      = (tr, Done (Inr res))
    \<longrightarrow> (\<exists>out. Img2Img L dec c opt = (tr, Done (Inr out))
           \<and> Images out = Images res
           \<and> ParsedImages out = List.map_filter (decoded_image L) (Images res)
           \<and> length (ParsedImages out) \<le> length (Images res)))"
  by (simp add: Txt2Img_def Img2Img_def enrichImages_Inr map_filter_decoded length_map_filter_le)

theorem decode_failures_are_skipped_witness:
  "(\<exists>out. Txt2Img fixture_lib fixture_dec (fixture_client fixture_body 200) (zero_value Txt2ImageOption)
            = (fixture_trace ''/txt2img'', Done (Inr out))
         \<and> Images out = [''UE5H'', ''QQ=='', ''!!'']
         \<and> ParsedImages out = [7])
   \<and> (\<exists>out. Img2Img fixture_lib fixture_dec (fixture_client fixture_body 200) (zero_value Img2ImgOption)
            = (fixture_trace ''/img2img'', Done (Inr out))
         \<and> Images out = [''UE5H'', ''QQ=='', ''!!'']
         \<and> ParsedImages out = [7])"
proof -
  let ?res = "\<lparr>Images = [''UE5H'', ''QQ=='', ''!!''], Parameters = None, Info = ''x'',
               ParsedImages = [], RawImages = []\<rparr> :: nat ImagesResponse"
  have imgs: "Images ?res = [''UE5H'', ''QQ=='', ''!!'']"
    by simp
  have d: "List.map_filter (decoded_image fixture_lib) [''UE5H'', ''QQ=='', ''!!''] = [7]"
    by (simp add: decoded_image_def base64_payload_def png_image_def fixture_lib_def)
  have t: "doReq fixture_lib (Encode (json_value fixture_lib) Txt2ImageOption) fixture_dec
             (fixture_client fixture_body 200) ''/txt2img'' ''POST'' (Some (zero_value Txt2ImageOption)) 200
           = (fixture_trace ''/txt2img'', Done (Inr ?res))"
    by (rule fixture_doReq_images [OF Txt2ImageOption_omitempty])
  have i: "doReq fixture_lib (Encode (json_value fixture_lib) Img2ImgOption) fixture_dec
             (fixture_client fixture_body 200) ''/img2img'' ''POST'' (Some (zero_value Img2ImgOption)) 200
           = (fixture_trace ''/img2img'', Done (Inr ?res))"
    by (rule fixture_doReq_images [OF Img2ImgOption_omitempty])
  from t decode_failures_are_skipped [of fixture_lib fixture_dec "fixture_client fixture_body 200"
        "zero_value Txt2ImageOption" "fixture_trace ''/txt2img''" ?res]
  obtain out where o:
    "Txt2Img fixture_lib fixture_dec (fixture_client fixture_body 200) (zero_value Txt2ImageOption)
       = (fixture_trace ''/txt2img'', Done (Inr out))"
    "Images out = Images ?res"
    "ParsedImages out = List.map_filter (decoded_image fixture_lib) (Images ?res)"
    by blast
  from i decode_failures_are_skipped [of fixture_lib fixture_dec "fixture_client fixture_body 200"
        "zero_value Img2ImgOption" "fixture_trace ''/img2img''" ?res]
  obtain out' where o':
    "Img2Img fixture_lib fixture_dec (fixture_client fixture_body 200) (zero_value Img2ImgOption)
       = (fixture_trace ''/img2img'', Done (Inr out'))"
    "Images out' = Images ?res"
    "ParsedImages out' = List.map_filter (decoded_image fixture_lib) (Images ?res)"
    by blast
  have p: "ParsedImages out = [7]" "ParsedImages out' = [7]"
    using o(3) o'(3) unfolding imgs d by blast+
  have q: "Images out = [''UE5H'', ''QQ=='', ''!!'']" "Images out' = [''UE5H'', ''QQ=='', ''!!'']"
    using o(2) o'(2) unfolding imgs by blast+
  from o(1) o'(1) p q show ?thesis by blast
qed

text \<open>
  Claim C5. When the status code is the expected one and the body is not valid
  JSON for the response type, the call returns a decode error, an ordinary error
  value that carries the cause reported by the JSON decoder and the response; it
  does not panic.
\<close>

theorem malformed_json_yields_decode_error:
  assumes "doReq_request L enc c path method body = Inr req"
    and "cli c = Some t"
    and "Do t req = Inr resp"
    and "ReadAll (Body resp) = Inr data"
    and "StatusCode resp = expectedStatus"
    and "dec data = Inl cause"
  shows "doReq L enc dec c path method body expectedStatus
           = ([Sent req, Parsed data],
              Done (Inl \<lparr>Err = Some cause, Msg = ''failed to parse response'', Response = Some resp\<rparr>))
         \<and> snd (doReq L enc dec c path method body expectedStatus) \<noteq> Panic"
  using assms by (simp add: doReq_def wrapError_def)

theorem malformed_json_yields_decode_error_witness:
  "doReq fixture_lib no_body fixture_dec (fixture_client ''<html>'' 200) ''/memory'' ''GET'' None 200
     = ([Sent (fixture_request ''GET'' ''/memory'' None), Parsed ''<html>''],
        Done (Inl \<lparr>Err = Some ''invalid character in JSON input'', Msg = ''failed to parse response'',
                   Response = Some \<lparr>StatusCode = 200, Body = BodyStream ''<html>'' None\<rparr>\<rparr>))"
proof -
  have h1: "doReq_request fixture_lib no_body (fixture_client ''<html>'' 200) ''/memory'' ''GET'' None
              = Inr (fixture_request ''GET'' ''/memory'' None)"
    by (rule fixture_doReq_request)
  have h2: "cli (fixture_client ''<html>'' 200) = Some (fixture_server 200 ''<html>'')"
    by (rule fixture_client_cli)
  have h3: "Do (fixture_server 200 ''<html>'') (fixture_request ''GET'' ''/memory'' None)
              = Inr \<lparr>StatusCode = 200, Body = BodyStream ''<html>'' None\<rparr>"
    by (simp add: fixture_server_def)
  have h4: "ReadAll (Body \<lparr>StatusCode = 200, Body = BodyStream ''<html>'' None\<rparr>) = Inr ''<html>''"
    by simp
  have h5: "StatusCode \<lparr>StatusCode = 200, Body = BodyStream ''<html>'' None\<rparr> = 200"
    by simp
  have h6: "fixture_dec ''<html>'' = Inl ''invalid character in JSON input''"
    by (simp add: fixture_dec_def fixture_body_def quote_def)
  from malformed_json_yields_decode_error [where dec = fixture_dec, OF h1 h2 h3 h4 h5 h6]
  show ?thesis by simp
qed


text \<open>
  Claim C7. Every request that \<^verbatim>\<open>doReq\<close> sends has the URL made of the client's
  base URL, \<^verbatim>\<open>/sdapi/v1\<close> and the endpoint path; \<^verbatim>\<open>NewClient\<close> replaces an empty
  base URL by \<^verbatim>\<open>http://127.0.0.1:7860\<close> and keeps a non-empty one.
\<close>

theorem request_url_is_base_prefix_path:
  "(\<forall>req. Sent req \<in> set (fst (doReq L enc dec c path method body expectedStatus))
       \<longrightarrow> URL req = baseURL c @ ''/sdapi/v1'' @ path)
   \<and> baseURL (fst (NewClient base user pass httpCli))
       = (if base = [] then ''http://127.0.0.1:7860'' else base)"
  by (auto simp: NewClient_def Let_def dest!: doReq_trace_Sent doReq_request_URL)

theorem request_url_is_base_prefix_path_witness:
  "Sent (fixture_request ''GET'' ''/memory'' None)
     \<in> set (fst (GetMemory fixture_lib fixture_dec (fixture_client fixture_body 200)))
   \<and> URL (fixture_request ''GET'' ''/memory'' None) = ''http://127.0.0.1:7860/sdapi/v1/memory''
   \<and> baseURL (fst (NewClient [] [] [] None)) = ''http://127.0.0.1:7860''
   \<and> baseURL (fst (NewClient ''http://sd.example:80'' [] [] None)) = ''http://sd.example:80''"
proof -
  have m: "Sent (fixture_request ''GET'' ''/memory'' None)
     \<in> set (fst (doReq fixture_lib no_body fixture_dec (fixture_client fixture_body 200)
                   ''/memory'' ''GET'' None 200))"
    by (simp add: doReq_def fixture_doReq_request fixture_client_cli fixture_server_def
          fixture_dec_def)
  show ?thesis
    using m
      request_url_is_base_prefix_path [of fixture_lib no_body fixture_dec
        "fixture_client fixture_body 200" "''/memory''" "''GET''" None 200 "[]" "[]" "[]" None]
      request_url_is_base_prefix_path [of fixture_lib no_body fixture_dec
        "fixture_client fixture_body 200" "''/memory''" "''GET''" None 200
        "''http://sd.example:80''" "[]" "[]" None]
    by (simp add: GetMemory_def fixture_request_def NewClient_def)
qed

text \<open>
  Claim C8. The data-URL helper returns \<^verbatim>\<open>data:image/png;base64,\<close> followed by
  what the bare base64 helper returns on the same image.
\<close>

theorem Img2Base64_is_prefixed_Img2RawBase64:
  "Img2Base64 L img = ''data:image/png;base64,'' @ Img2RawBase64 L img"
  by (simp add: Img2Base64_def Img2RawBase64_def)

text \<open>
  Claim C9. In the response of a successful \<^verbatim>\<open>Txt2Img\<close> or \<^verbatim>\<open>Img2Img\<close> call,
  \<open>RawImages\<close> holds the bytes of every image string that passes the base64
  decoder, and \<open>ParsedImages\<close> the images of those byte slices that pass the PNG
  decoder. So an entry that is valid base64 but not a PNG is in \<open>RawImages\<close> and
  contributes nothing to \<open>ParsedImages\<close>, and
  \<open>length ParsedImages \<le> length RawImages \<le> length Images\<close>. The two derived
  lists need not be equally long: in the fixture response the three lengths are
  1, 2 and 3.
\<close>

theorem parsed_raw_images_lengths:
  "(Txt2Img L dec c opt = (tr, Done (Inr out))
    \<longrightarrow> RawImages out = List.map_filter (base64_payload L) (Images out)
        \<and> ParsedImages out = List.map_filter (png_image L) (RawImages out)
        \<and> length (ParsedImages out) \<le> length (RawImages out)
        \<and> length (RawImages out) \<le> length (Images out))
   \<and> (Img2Img L dec c opt = (tr, Done (Inr out))
    \<longrightarrow> RawImages out = List.map_filter (base64_payload L) (Images out)
        \<and> ParsedImages out = List.map_filter (png_image L) (RawImages out)
        \<and> length (ParsedImages out) \<le> length (RawImages out)
        \<and> length (RawImages out) \<le> length (Images out))"
  by (auto simp: Txt2Img_def Img2Img_def length_map_filter_le dest!: enrichImages_success)

theorem parsed_raw_images_lengths_witness:
  "RawImages fixture_response = List.map_filter (base64_payload fixture_lib) (Images fixture_response)
   \<and> ParsedImages fixture_response = List.map_filter (png_image fixture_lib) (RawImages fixture_response)
   \<and> length (ParsedImages fixture_response) \<le> length (RawImages fixture_response)
   \<and> length (RawImages fixture_response) \<le> length (Images fixture_response)
   \<and> length (ParsedImages fixture_response) = 1
   \<and> length (RawImages fixture_response) = 2
   \<and> length (Images fixture_response) = 3"
proof -
  have n: "length (ParsedImages fixture_response) = 1 \<and> length (RawImages fixture_response) = 2
           \<and> length (Images fixture_response) = 3"
    by (simp add: fixture_response_def)
  from fixture_Txt2Img
    parsed_raw_images_lengths [of fixture_lib fixture_dec "fixture_client fixture_body 200"
      "zero_value Txt2ImageOption" "fixture_trace ''/txt2img''" fixture_response]
  have "RawImages fixture_response = List.map_filter (base64_payload fixture_lib) (Images fixture_response)
        \<and> ParsedImages fixture_response = List.map_filter (png_image fixture_lib) (RawImages fixture_response)
        \<and> length (ParsedImages fixture_response) \<le> length (RawImages fixture_response)
        \<and> length (RawImages fixture_response) \<le> length (Images fixture_response)"
    by blast
  with n show ?thesis by blast
qed

text \<open>
  Claim C10. \<^verbatim>\<open>NewClient\<close> returns a nil error for every base URL, username,
  password and HTTP client handle, the nil handle included.
\<close>

theorem NewClient_never_fails:
  "snd (NewClient base user pass httpCli) = None"
  by (simp add: NewClient_def Let_def)

end
